theory Spec2Isabelle
  imports Main
begin

section \<open>The operation graph\<close>

text \<open>
  An operation is identified by its dialect namespace and its mnemonic:
  \<open>memref.load\<close> is \<open>(''memref'', ''load'')\<close>. The graph is an arena of operations;
  an operation is referred to by its index (the \<open>Operation*\<close> of the source) and
  records the index of its parent operation. A region is a list of blocks, a block
  declares its arguments; the operations of a region are those whose parent is the
  owner of the region.
\<close>

type_synonym dialect = string
type_synonym op_name = "dialect \<times> string"

record 'ty block =
  blockArguments :: "'ty list"

type_synonym 'ty region = "'ty block list"

record 'ty operation =
  opName :: op_name
  operandTypes :: "'ty list"
  resultTypes :: "'ty list"
  functionType :: "'ty list \<times> 'ty list"
  opRegions :: "'ty region list"
  parentOp :: "nat option"

type_synonym 'ty graph = "'ty operation list"

definition getParentOp :: "'ty graph \<Rightarrow> 'ty operation \<Rightarrow> 'ty operation option" where
  "getParentOp g op =
     (case parentOp op of
        None \<Rightarrow> None
      | Some p \<Rightarrow> if p < length g then Some (g ! p) else None)"

definition getRegion :: "'ty operation \<Rightarrow> nat \<Rightarrow> 'ty region option" where
  "getRegion op i = (if i < length (opRegions op) then Some (opRegions op ! i) else None)"

section \<open>Dialects and operation names used by the pass\<close>

definition GPUDialect :: dialect where "GPUDialect = ''gpu''"
definition TFRTDialect :: dialect where "TFRTDialect = ''tfrt''"
definition TfrtGpuDialect :: dialect where "TfrtGpuDialect = ''tfrt_gpu''"
definition XlirDialect :: dialect where "XlirDialect = ''xlir''"
definition LmhloGpuDialect :: dialect where "LmhloGpuDialect = ''lmhlo_gpu''"

definition FuncOp :: op_name where "FuncOp = (''func'', ''func'')"
definition StreamifyOp :: op_name where "StreamifyOp = (''tfrt_gpu'', ''streamify'')"
definition LoadOp :: op_name where "LoadOp = (''memref'', ''load'')"

text \<open>Lines 106-107: the operations of \<open>addIllegalOp\<close>.\<close>

definition illegal_memref_ops :: "op_name list" where
  "illegal_memref_ops =
     [(''memref'', ''reinterpret_cast''), (''memref'', ''view''), (''memref'', ''alloca''),
      (''memref'', ''alloc''), (''memref'', ''dealloc'')]"

text \<open>Lines 114-116: the call-like operations judged by \<open>converter.isLegal(op)\<close>.\<close>

definition call_like_ops :: "op_name list" where
  "call_like_ops =
     [(''tfrt'', ''call''), (''tfrt'', ''return''), (''tfrt'', ''while''),
      (''func'', ''call''), (''func'', ''return'')]"

text \<open>Lines 97-101: the twelve \<open>lmhlo\<close> operations of \<open>wrap_target.addLegalOp\<close>.\<close>

definition wrapped_lmhlo_ops :: "op_name list" where
  "wrapped_lmhlo_ops =
     [(''lmhlo'', ''all_gather''), (''lmhlo'', ''all_reduce''), (''lmhlo'', ''reduce_scatter''),
      (''lmhlo'', ''all_to_all''), (''lmhlo'', ''collective_permute''), (''lmhlo'', ''custom_call''),
      (''lmhlo'', ''triangular_solve''), (''lmhlo'', ''replica_id''), (''lmhlo'', ''partition_id''),
      (''lmhlo'', ''infeed''), (''lmhlo'', ''outfeed''), (''lmhlo'', ''fft'')]"

text \<open>Every operation kind the conversion target of lines 105-120 classifies explicitly.\<close>

definition explicitly_classified :: "op_name list" where
  "explicitly_classified =
     illegal_memref_ops @ [FuncOp] @ [StreamifyOp] @ call_like_ops @ [LoadOp]"

section \<open>Dependent dialects\<close>

text \<open>
  Lines 65-69: \<open>getDependentDialects\<close> inserts four dialects into the registry it is
  given. The registry is keyed by namespace, so inserting is set insertion.
\<close>

definition getDependentDialects :: "dialect set \<Rightarrow> dialect set" where
  "getDependentDialects registry =
     insert XlirDialect (insert TfrtGpuDialect (insert TFRTDialect (insert GPUDialect registry)))"

section \<open>Type converter\<close>

text \<open>
  Modelled from the spec: the type converter (\<open>mlir::TypeConverter\<close>, whose class is
  not under src/). Section 4.1: \<open>convert(sourceType)\<close> gives the target type or fails;
  it also judges whether the boundary signature of a function or region is fully
  converted. A type is legal when it converts to itself.
\<close>

record 'ty TypeConverter =
  convertType :: "'ty \<Rightarrow> 'ty option"

definition isLegal_type :: "'ty TypeConverter \<Rightarrow> 'ty \<Rightarrow> bool" where
  "isLegal_type converter t = (convertType converter t = Some t)"

definition isLegal_types :: "'ty TypeConverter \<Rightarrow> 'ty list \<Rightarrow> bool" where
  "isLegal_types converter ts = list_all (isLegal_type converter) ts"

definition isSignatureLegal :: "'ty TypeConverter \<Rightarrow> 'ty list \<times> 'ty list \<Rightarrow> bool" where
  "isSignatureLegal converter ty =
     (isLegal_types converter (fst ty) \<and> isLegal_types converter (snd ty))"

definition isLegal_region :: "'ty TypeConverter \<Rightarrow> 'ty region \<Rightarrow> bool" where
  "isLegal_region converter r =
     list_all (\<lambda>b. isLegal_types converter (blockArguments b)) r"

definition isLegal_op :: "'ty TypeConverter \<Rightarrow> 'ty operation \<Rightarrow> bool" where
  "isLegal_op converter op =
     (isLegal_types converter (operandTypes op) \<and> isLegal_types converter (resultTypes op))"

section \<open>Conversion target (the legality oracle)\<close>

text \<open>
  Modelled from the spec: the conversion target (\<open>mlir::ConversionTarget\<close>, whose class
  is not under src/). Sections 4.3 and 9: an explicit mapping from operation kind to a
  classification (always legal, always illegal, or a predicate on the instance), a
  classification per dialect, and a default rule for every kind that is not classified;
  an explicit classification takes precedence over the default rule. A predicate sees
  the operation and the graph it lives in.
\<close>

datatype 'ty LegalizationAction =
    Legal
  | Illegal
  | Dynamic "'ty graph \<Rightarrow> 'ty operation \<Rightarrow> bool"

record 'ty ConversionTarget =
  legalOperations :: "op_name \<rightharpoonup> 'ty LegalizationAction"
  legalDialects :: "dialect \<rightharpoonup> 'ty LegalizationAction"
  unknownLegalityFn :: "('ty graph \<Rightarrow> 'ty operation \<Rightarrow> bool) option"

definition emptyTarget :: "'ty ConversionTarget" where
  "emptyTarget =
     \<lparr>legalOperations = Map.empty, legalDialects = Map.empty, unknownLegalityFn = None\<rparr>"

fun setOpAction ::
  "'ty LegalizationAction \<Rightarrow> op_name list \<Rightarrow> 'ty ConversionTarget \<Rightarrow> 'ty ConversionTarget" where
  "setOpAction a [] t = t"
| "setOpAction a (n # ns) t =
     setOpAction a ns (t\<lparr>legalOperations := (legalOperations t)(n \<mapsto> a)\<rparr>)"

definition addLegalOp :: "op_name list \<Rightarrow> 'ty ConversionTarget \<Rightarrow> 'ty ConversionTarget" where
  "addLegalOp ns t = setOpAction Legal ns t"

definition addIllegalOp :: "op_name list \<Rightarrow> 'ty ConversionTarget \<Rightarrow> 'ty ConversionTarget" where
  "addIllegalOp ns t = setOpAction Illegal ns t"

definition addDynamicallyLegalOp ::
  "op_name list \<Rightarrow> ('ty graph \<Rightarrow> 'ty operation \<Rightarrow> bool) \<Rightarrow> 'ty ConversionTarget
    \<Rightarrow> 'ty ConversionTarget" where
  "addDynamicallyLegalOp ns f t = setOpAction (Dynamic f) ns t"

definition addLegalDialect :: "dialect \<Rightarrow> 'ty ConversionTarget \<Rightarrow> 'ty ConversionTarget" where
  "addLegalDialect d t = t\<lparr>legalDialects := (legalDialects t)(d \<mapsto> Legal)\<rparr>"

definition markUnknownOpDynamicallyLegal ::
  "('ty graph \<Rightarrow> 'ty operation \<Rightarrow> bool) \<Rightarrow> 'ty ConversionTarget \<Rightarrow> 'ty ConversionTarget" where
  "markUnknownOpDynamicallyLegal f t = t\<lparr>unknownLegalityFn := Some f\<rparr>"

definition getOpInfo :: "'ty ConversionTarget \<Rightarrow> op_name \<Rightarrow> 'ty LegalizationAction option" where
  "getOpInfo t n =
     (case legalOperations t n of
        Some a \<Rightarrow> Some a
      | None \<Rightarrow>
          (case legalDialects t (fst n) of
             Some a \<Rightarrow> Some a
           | None \<Rightarrow> map_option Dynamic (unknownLegalityFn t)))"

definition isLegal :: "'ty ConversionTarget \<Rightarrow> 'ty graph \<Rightarrow> 'ty operation \<Rightarrow> bool" where
  "isLegal t g op =
     (case getOpInfo t (opName op) of
        None \<Rightarrow> False
      | Some Legal \<Rightarrow> True
      | Some Illegal \<Rightarrow> False
      | Some (Dynamic f) \<Rightarrow> f g op)"

section \<open>Rewrite patterns and rule providers\<close>

text \<open>
  Modelled from the spec: the pattern registry (\<open>mlir::RewritePatternSet\<close>) and the
  rule providers (the nine \<open>populate...ConversionPattern\<close> functions that lines 42-53
  only declare, and \<open>tfrt::gpu::populateStreamifyConversionPatterns\<close>; none is defined
  under src/). Section 4.2: a rule has a declared benefit and a function that matches an
  operation and rewrites the graph, or does not match. Sections 4.2 and 6: a provider
  is called with the registry and the type converter and appends its rules to the one
  shared registry. The rules a provider contributes are parameters.
\<close>

record 'ty rule =
  ruleBenefit :: nat
  ruleBody :: "'ty TypeConverter \<Rightarrow> 'ty graph \<Rightarrow> nat \<Rightarrow> 'ty graph option"

record 'ty pattern =
  benefit :: nat
  typeConverter :: "'ty TypeConverter"
  body :: "'ty TypeConverter \<Rightarrow> 'ty graph \<Rightarrow> nat \<Rightarrow> 'ty graph option"

definition mkPattern :: "'ty TypeConverter \<Rightarrow> 'ty rule \<Rightarrow> 'ty pattern" where
  "mkPattern converter r =
     \<lparr>benefit = ruleBenefit r, typeConverter = converter, body = ruleBody r\<rparr>"

definition matchAndRewrite :: "'ty pattern \<Rightarrow> 'ty graph \<Rightarrow> nat \<Rightarrow> 'ty graph option" where
  "matchAndRewrite p g i = body p (typeConverter p) g i"

definition populate ::
  "'ty rule list \<Rightarrow> 'ty pattern list \<Rightarrow> 'ty TypeConverter \<Rightarrow> 'ty pattern list" where
  "populate rules patterns converter = patterns @ map (mkPattern converter) rules"

text \<open>
  What the code outside src/ supplies to the pass: the conversion function of the
  converter that \<open>tfrt::gpu::CreateMemrefToTfrtGpuConverter\<close> builds, the rules of each
  provider, and the TFRT operations that \<open>populateStreamifyConversionPatterns\<close> adds to
  \<open>wrap_target\<close> (comment of lines 92-94).
\<close>

record 'ty providers =
  memrefToTfrtGpu :: "'ty \<Rightarrow> 'ty option"
  cclRules :: "'ty rule list"
  choleskyRules :: "'ty rule list"
  convolutionRules :: "'ty rule list"
  customCallRules :: "'ty rule list"
  gemmRules :: "'ty rule list"
  infeedAndOutfeedRules :: "'ty rule list"
  replicaAndPartitionRules :: "'ty rule list"
  triangularSolveRules :: "'ty rule list"
  fftRules :: "'ty rule list"
  streamifyRules :: "'ty ConversionTarget \<Rightarrow> 'ty rule list"
  streamifyTfrtOps :: "string list"

definition CreateMemrefToTfrtGpuConverter :: "'ty providers \<Rightarrow> 'ty TypeConverter" where
  "CreateMemrefToTfrtGpuConverter env = \<lparr>convertType = memrefToTfrtGpu env\<rparr>"

definition populateCclConversionPattern ::
  "'ty providers \<Rightarrow> 'ty pattern list \<Rightarrow> 'ty TypeConverter \<Rightarrow> 'ty pattern list" where
  "populateCclConversionPattern env = populate (cclRules env)"

definition populateCholeskyConversionPattern ::
  "'ty providers \<Rightarrow> 'ty pattern list \<Rightarrow> 'ty TypeConverter \<Rightarrow> 'ty pattern list" where
  "populateCholeskyConversionPattern env = populate (choleskyRules env)"

definition populateConvolutionConversionPattern ::
  "'ty providers \<Rightarrow> 'ty pattern list \<Rightarrow> 'ty TypeConverter \<Rightarrow> 'ty pattern list" where
  "populateConvolutionConversionPattern env = populate (convolutionRules env)"

definition populateCustomCallConversionPattern ::
  "'ty providers \<Rightarrow> 'ty pattern list \<Rightarrow> 'ty TypeConverter \<Rightarrow> 'ty pattern list" where
  "populateCustomCallConversionPattern env = populate (customCallRules env)"

definition populateGemmConversionPattern ::
  "'ty providers \<Rightarrow> 'ty pattern list \<Rightarrow> 'ty TypeConverter \<Rightarrow> 'ty pattern list" where
  "populateGemmConversionPattern env = populate (gemmRules env)"

definition populateInfeedAndOutfeedConversionPattern ::
  "'ty providers \<Rightarrow> 'ty pattern list \<Rightarrow> 'ty TypeConverter \<Rightarrow> 'ty pattern list" where
  "populateInfeedAndOutfeedConversionPattern env = populate (infeedAndOutfeedRules env)"

definition populateReplicaAndPartitionConversionPattern ::
  "'ty providers \<Rightarrow> 'ty pattern list \<Rightarrow> 'ty TypeConverter \<Rightarrow> 'ty pattern list" where
  "populateReplicaAndPartitionConversionPattern env = populate (replicaAndPartitionRules env)"

definition populateTriangularSolveConversionPattern ::
  "'ty providers \<Rightarrow> 'ty pattern list \<Rightarrow> 'ty TypeConverter \<Rightarrow> 'ty pattern list" where
  "populateTriangularSolveConversionPattern env = populate (triangularSolveRules env)"

definition populateFftConversionPattern ::
  "'ty providers \<Rightarrow> 'ty pattern list \<Rightarrow> 'ty TypeConverter \<Rightarrow> 'ty pattern list" where
  "populateFftConversionPattern env = populate (fftRules env)"

text \<open>
  \<open>populateStreamifyConversionPatterns\<close> receives the registry, the converter and
  \<open>wrap_target\<close>, all by reference: it adds TFRT operations to \<open>wrap_target\<close> and
  appends the streamify rules, which consult \<open>wrap_target\<close>. It is not given the module.
\<close>

definition populateStreamifyConversionPatterns ::
  "'ty providers \<Rightarrow> 'ty pattern list \<Rightarrow> 'ty TypeConverter \<Rightarrow> 'ty ConversionTarget
    \<Rightarrow> 'ty pattern list \<times> 'ty ConversionTarget" where
  "populateStreamifyConversionPatterns env patterns converter wrap_target =
     (let wrap_target' = addLegalOp (map (Pair TFRTDialect) (streamifyTfrtOps env)) wrap_target
      in (populate (streamifyRules env wrap_target') patterns converter, wrap_target'))"

section \<open>The pass: set-up of converter, patterns and targets\<close>

text \<open>Line 76.\<close>

definition converter :: "'ty providers \<Rightarrow> 'ty TypeConverter" where
  "converter env = CreateMemrefToTfrtGpuConverter env"

text \<open>Lines 78-87: the nine providers, called in this order on one registry.\<close>

definition provider_patterns :: "'ty providers \<Rightarrow> 'ty pattern list" where
  "provider_patterns env =
     (let patterns = [];
          patterns = populateCclConversionPattern env patterns (converter env);
          patterns = populateCholeskyConversionPattern env patterns (converter env);
          patterns = populateConvolutionConversionPattern env patterns (converter env);
          patterns = populateCustomCallConversionPattern env patterns (converter env);
          patterns = populateGemmConversionPattern env patterns (converter env);
          patterns = populateInfeedAndOutfeedConversionPattern env patterns (converter env);
          patterns = populateReplicaAndPartitionConversionPattern env patterns (converter env);
          patterns = populateTriangularSolveConversionPattern env patterns (converter env);
          patterns = populateFftConversionPattern env patterns (converter env)
      in patterns)"

text \<open>Lines 95-101: \<open>wrap_target\<close> before \<open>populateStreamifyConversionPatterns\<close>.\<close>

definition initial_wrap_target :: "'ty ConversionTarget" where
  "initial_wrap_target =
     addLegalOp wrapped_lmhlo_ops (addLegalDialect LmhloGpuDialect emptyTarget)"

text \<open>Lines 102-103: the registry and \<open>wrap_target\<close> after the call.\<close>

definition patterns :: "'ty providers \<Rightarrow> 'ty pattern list" where
  "patterns env =
     fst (populateStreamifyConversionPatterns env (provider_patterns env) (converter env)
            initial_wrap_target)"

definition wrap_target :: "'ty providers \<Rightarrow> 'ty ConversionTarget" where
  "wrap_target env =
     snd (populateStreamifyConversionPatterns env (provider_patterns env) (converter env)
            initial_wrap_target)"

text \<open>
  Lines 108-120: the predicates of the dynamically legal operations. \<open>getBody\<close> and
  \<open>body\<close> are region 0 of an operation that has one region by its definition; on an
  operation without regions the source fails an assertion, and so does \<open>isa\<close> on the
  null parent of a top-level operation. Neither happens in a module; the predicates
  answer False there.
\<close>

definition funcOpLegal :: "'ty TypeConverter \<Rightarrow> 'ty graph \<Rightarrow> 'ty operation \<Rightarrow> bool" where
  "funcOpLegal c g op =
     (isSignatureLegal c (functionType op) \<and>
      (case getRegion op 0 of Some r \<Rightarrow> isLegal_region c r | None \<Rightarrow> False))"

definition streamifyOpLegal :: "'ty TypeConverter \<Rightarrow> 'ty graph \<Rightarrow> 'ty operation \<Rightarrow> bool" where
  "streamifyOpLegal c g op =
     (case getRegion op 0 of Some r \<Rightarrow> isLegal_region c r | None \<Rightarrow> False)"

definition callLikeOpLegal :: "'ty TypeConverter \<Rightarrow> 'ty graph \<Rightarrow> 'ty operation \<Rightarrow> bool" where
  "callLikeOpLegal c g op = isLegal_op c op"

definition loadOpLegal :: "'ty graph \<Rightarrow> 'ty operation \<Rightarrow> bool" where
  "loadOpLegal g op =
     (case getParentOp g op of Some p \<Rightarrow> opName p = StreamifyOp | None \<Rightarrow> False)"

text \<open>Lines 105-123: the conversion target.\<close>

definition target :: "'ty providers \<Rightarrow> 'ty ConversionTarget" where
  "target env =
     (let target = emptyTarget;
          target = addIllegalOp illegal_memref_ops target;
          target = addDynamicallyLegalOp [FuncOp] (funcOpLegal (converter env)) target;
          target = addDynamicallyLegalOp [StreamifyOp] (streamifyOpLegal (converter env)) target;
          target = addDynamicallyLegalOp call_like_ops (callLikeOpLegal (converter env)) target;
          target = addDynamicallyLegalOp [LoadOp] loadOpLegal target;
          target = markUnknownOpDynamicallyLegal
                     (\<lambda>g op. \<not> isLegal (wrap_target env) g op) target
      in target)"

section \<open>Conversion driver\<close>

text \<open>
  Modelled from the spec: the conversion driver (\<open>mlir::applyPartialConversion\<close>, not
  under src/). Section 4.5: while the graph contains an operation failing the legality
  oracle, select an illegal operation (here the first one that some pattern applies
  to), find the matching pattern of highest benefit (ties go to the pattern registered
  first; a pattern that does not match is passed over), apply its rewrite; the oracle is
  queried afresh after every rewrite. The driver ends Legal when the oracle accepts
  every operation, and Stuck when illegal operations remain and no pattern applies to
  any of them. The loop is bounded by fuel: None is a
  driver that has not returned. The spec asks the driver to detect non-progress and
  does not say how; the loop below has no such detection, and nothing here depends on
  the driver returning.
\<close>

definition illegalOps :: "'ty ConversionTarget \<Rightarrow> 'ty graph \<Rightarrow> nat list" where
  "illegalOps t g = filter (\<lambda>i. \<not> isLegal t g (g ! i)) [0..<length g]"

fun selectPattern :: "'ty pattern list \<Rightarrow> 'ty graph \<Rightarrow> nat \<Rightarrow> (nat \<times> 'ty graph) option" where
  "selectPattern [] g i = None"
| "selectPattern (p # ps) g i =
     (case matchAndRewrite p g i of
        None \<Rightarrow> selectPattern ps g i
      | Some g' \<Rightarrow>
          (case selectPattern ps g i of
             None \<Rightarrow> Some (benefit p, g')
           | Some (b, g'') \<Rightarrow> if benefit p < b then Some (b, g'') else Some (benefit p, g')))"

fun firstRewrite :: "'ty pattern list \<Rightarrow> 'ty graph \<Rightarrow> nat list \<Rightarrow> 'ty graph option" where
  "firstRewrite ps g [] = None"
| "firstRewrite ps g (i # is) =
     (case selectPattern ps g i of
        Some (b, g') \<Rightarrow> Some g'
      | None \<Rightarrow> firstRewrite ps g is)"

datatype 'ty driver_state = StateLegal "'ty graph" | StateStuck "'ty graph"

fun applyPartialConversion ::
  "nat \<Rightarrow> 'ty graph \<Rightarrow> 'ty ConversionTarget \<Rightarrow> 'ty pattern list \<Rightarrow> 'ty driver_state option" where
  "applyPartialConversion 0 g t ps = None"
| "applyPartialConversion (Suc fuel) g t ps =
     (if illegalOps t g = [] then Some (StateLegal g)
      else (case firstRewrite ps g (illegalOps t g) of
              None \<Rightarrow> Some (StateStuck g)
            | Some g' \<Rightarrow> applyPartialConversion fuel g' t ps))"

fun finalGraph :: "'ty driver_state \<Rightarrow> 'ty graph" where
  "finalGraph (StateLegal g) = g"
| "finalGraph (StateStuck g) = g"

section \<open>Running the pass\<close>

datatype pass_error = PassFailure

text \<open>
  Line 126: what the pass hands to the driver: \<open>getOperation()\<close>, which is the module
  the pass runs on, the target, and the registry.
\<close>

record 'ty driver_call =
  callModule :: "'ty graph"
  callTarget :: "'ty ConversionTarget"
  callPatterns :: "'ty pattern list"

definition driverCall :: "'ty providers \<Rightarrow> 'ty graph \<Rightarrow> 'ty driver_call" where
  "driverCall env module =
     \<lparr>callModule = module, callTarget = target env, callPatterns = patterns env\<rparr>"

text \<open>
  Lines 125-127: a failed conversion signals pass failure. A failed pass has no
  resulting module.
\<close>

definition runOnOperation ::
  "'ty providers \<Rightarrow> nat \<Rightarrow> 'ty graph \<Rightarrow> (pass_error + 'ty graph) option" where
  "runOnOperation env fuel module =
     (let call = driverCall env module
      in case applyPartialConversion fuel (callModule call) (callTarget call) (callPatterns call) of
           None \<Rightarrow> None
         | Some (StateStuck g) \<Rightarrow> Some (Inl PassFailure)
         | Some (StateLegal g) \<Rightarrow> Some (Inr g))"

text \<open>
  Modelled from the spec: the outcome of region wrapping. Section 4.4: every operation
  whose kind belongs to the wrap set sits in the body of a wrapping operation.
\<close>

definition regionWrapped :: "'ty providers \<Rightarrow> 'ty graph \<Rightarrow> bool" where
  "regionWrapped env g =
     list_all (\<lambda>op. isLegal (wrap_target env) g op \<longrightarrow>
                 (case getParentOp g op of Some p \<Rightarrow> opName p = StreamifyOp | None \<Rightarrow> False)) g"

section \<open>A concrete instance\<close>

text \<open>
  Four types, a converter that maps the buffer type of the source vocabulary to the
  runtime buffer type and leaves every other type alone, a streamify rule that moves a
  wrap-set operation under a new \<open>tfrt_gpu.streamify\<close>, and an fft rule that lowers
  \<open>lmhlo.fft\<close> once it sits in a streamify body.
\<close>

datatype example_type = MemRefType | BufferType | ChainType | StreamType

definition example_convert :: "example_type \<Rightarrow> example_type option" where
  "example_convert t = (if t = MemRefType then Some BufferType else Some t)"

definition example_wrap_rule :: "example_type ConversionTarget \<Rightarrow> example_type rule" where
  "example_wrap_rule wt =
     \<lparr>ruleBenefit = 1,
      ruleBody = (\<lambda>c g i.
        if i < length g \<and> isLegal wt g (g ! i) \<and> \<not> loadOpLegal g (g ! i)
        then Some (g[i := (g ! i)\<lparr>parentOp := Some (length g)\<rparr>] @
                   [\<lparr>opName = StreamifyOp, operandTypes = [ChainType, StreamType],
                     resultTypes = [ChainType], functionType = ([], []),
                     opRegions = [[\<lparr>blockArguments = [ChainType, StreamType]\<rparr>]],
                     parentOp = parentOp (g ! i)\<rparr>])
        else None)\<rparr>"

definition example_fft_rule :: "example_type rule" where
  "example_fft_rule =
     \<lparr>ruleBenefit = 1,
      ruleBody = (\<lambda>c g i.
        if i < length g \<and> opName (g ! i) = (''lmhlo'', ''fft'') \<and> loadOpLegal g (g ! i)
        then Some (g[i := (g ! i)\<lparr>opName := (''tfrt_gpu'', ''fft.execute'')\<rparr>])
        else None)\<rparr>"

definition example_env :: "example_type providers" where
  "example_env =
     \<lparr>memrefToTfrtGpu = example_convert,
      cclRules = [], choleskyRules = [], convolutionRules = [], customCallRules = [],
      gemmRules = [], infeedAndOutfeedRules = [], replicaAndPartitionRules = [],
      triangularSolveRules = [], fftRules = [example_fft_rule],
      streamifyRules = (\<lambda>wt. [example_wrap_rule wt]),
      streamifyTfrtOps = [''call'']\<rparr>"

definition mkOp ::
  "op_name \<Rightarrow> example_type list \<Rightarrow> nat option \<Rightarrow> example_type operation" where
  "mkOp n tys p =
     \<lparr>opName = n, operandTypes = tys, resultTypes = [], functionType = ([], []),
      opRegions = [], parentOp = p\<rparr>"

definition example_module_op :: "example_type operation" where
  "example_module_op =
     \<lparr>opName = (''builtin'', ''module''), operandTypes = [], resultTypes = [],
      functionType = ([], []), opRegions = [[\<lparr>blockArguments = []\<rparr>]], parentOp = None\<rparr>"

definition example_func :: "example_type list \<Rightarrow> example_type operation" where
  "example_func args =
     \<lparr>opName = FuncOp, operandTypes = [], resultTypes = [], functionType = (args, []),
      opRegions = [[\<lparr>blockArguments = args\<rparr>]], parentOp = Some 0\<rparr>"

definition example_streamify :: "example_type list \<Rightarrow> example_type operation" where
  "example_streamify args =
     \<lparr>opName = StreamifyOp, operandTypes = [ChainType, StreamType], resultTypes = [ChainType],
      functionType = ([], []), opRegions = [[\<lparr>blockArguments = args\<rparr>]], parentOp = Some 1\<rparr>"

text \<open>A module with one function whose body holds an \<open>lmhlo.fft\<close> and the return.\<close>

definition example_module :: "example_type graph" where
  "example_module =
     [example_module_op, example_func [BufferType],
      mkOp (''lmhlo'', ''fft'') [BufferType, BufferType] (Some 1),
      mkOp (''func'', ''return'') [] (Some 1)]"

text \<open>The module after the pass: the fft is lowered and sits under a streamify.\<close>

definition example_converted :: "example_type graph" where
  "example_converted =
     [example_module_op, example_func [BufferType],
      mkOp (''tfrt_gpu'', ''fft.execute'') [BufferType, BufferType] (Some 4),
      mkOp (''func'', ''return'') [] (Some 1),
      example_streamify [ChainType, StreamType]]"

text \<open>A module that also allocates a buffer: no rule rewrites \<open>memref.alloc\<close>.\<close>

definition example_stuck_module :: "example_type graph" where
  "example_stuck_module =
     [example_module_op, example_func [BufferType],
      mkOp (''memref'', ''alloc'') [] (Some 1),
      mkOp (''lmhlo'', ''fft'') [BufferType, BufferType] (Some 1),
      mkOp (''func'', ''return'') [] (Some 1)]"

definition example_stuck_final :: "example_type graph" where
  "example_stuck_final =
     [example_module_op, example_func [BufferType],
      mkOp (''memref'', ''alloc'') [] (Some 1),
      mkOp (''tfrt_gpu'', ''fft.execute'') [BufferType, BufferType] (Some 5),
      mkOp (''func'', ''return'') [] (Some 1),
      example_streamify [ChainType, StreamType]]"

text \<open>The module after the first rewrite of the driver: the fft sits under a streamify.\<close>

definition example_wrapped :: "example_type graph" where
  "example_wrapped =
     [example_module_op, example_func [BufferType],
      mkOp (''lmhlo'', ''fft'') [BufferType, BufferType] (Some 4),
      mkOp (''func'', ''return'') [] (Some 1),
      example_streamify [ChainType, StreamType]]"

text \<open>A module with one \<open>memref.load\<close> in a streamify body and one in the function body.\<close>

definition example_load_module :: "example_type graph" where
  "example_load_module =
     [example_module_op, example_func [MemRefType],
      example_streamify [ChainType, StreamType],
      mkOp LoadOp [MemRefType] (Some 2),
      mkOp LoadOp [MemRefType] (Some 1)]"

section \<open>Lookup in the two targets of the pass\<close>

lemma setOpAction_ops:
  "legalOperations (setOpAction a ns t) n = (if n \<in> set ns then Some a else legalOperations t n)"
  by (induction ns arbitrary: t) auto

lemma setOpAction_dialects: "legalDialects (setOpAction a ns t) = legalDialects t"
  by (induction ns arbitrary: t) auto

lemma setOpAction_unknown: "unknownLegalityFn (setOpAction a ns t) = unknownLegalityFn t"
  by (induction ns arbitrary: t) auto

lemmas target_simps = setOpAction_ops setOpAction_dialects setOpAction_unknown
  addLegalOp_def addIllegalOp_def addDynamicallyLegalOp_def addLegalDialect_def
  markUnknownOpDynamicallyLegal_def emptyTarget_def

lemma target_ops:
  "legalOperations (target env) n =
     (if n = LoadOp then Some (Dynamic loadOpLegal)
      else if n \<in> set call_like_ops then Some (Dynamic (callLikeOpLegal (converter env)))
      else if n = StreamifyOp then Some (Dynamic (streamifyOpLegal (converter env)))
      else if n = FuncOp then Some (Dynamic (funcOpLegal (converter env)))
      else if n \<in> set illegal_memref_ops then Some Illegal
      else None)"
  by (simp add: target_def Let_def target_simps)

lemma target_dialects: "legalDialects (target env) d = None"
  by (simp add: target_def Let_def target_simps)

lemma target_unknown:
  "unknownLegalityFn (target env) = Some (\<lambda>g op. \<not> isLegal (wrap_target env) g op)"
  by (simp add: target_def Let_def target_simps)

lemmas wrap_target_unfold = wrap_target_def populateStreamifyConversionPatterns_def
  initial_wrap_target_def Let_def target_simps

lemma wrap_target_ops:
  "legalOperations (wrap_target env) n =
     (if n \<in> set (map (Pair TFRTDialect) (streamifyTfrtOps env)) \<or> n \<in> set wrapped_lmhlo_ops
      then Some Legal else None)"
  by (simp add: wrap_target_unfold)

lemma wrap_target_dialects:
  "legalDialects (wrap_target env) d = (if d = LmhloGpuDialect then Some Legal else None)"
  by (simp add: wrap_target_unfold)

lemma wrap_target_unknown: "unknownLegalityFn (wrap_target env) = None"
  by (simp add: wrap_target_unfold)

lemma wrap_target_isLegal:
  "isLegal (wrap_target env) g op =
     (fst (opName op) = LmhloGpuDialect \<or> opName op \<in> set wrapped_lmhlo_ops \<or>
      (fst (opName op) = TFRTDialect \<and> snd (opName op) \<in> set (streamifyTfrtOps env)))"
  by (cases "opName op")
     (auto simp: isLegal_def getOpInfo_def wrap_target_ops wrap_target_dialects wrap_target_unknown)

text \<open>The oracle of the pass, kind by kind; an explicit classification comes first.\<close>

lemma target_isLegal:
  "isLegal (target env) g op =
     (if opName op = LoadOp then loadOpLegal g op
      else if opName op \<in> set call_like_ops then callLikeOpLegal (converter env) g op
      else if opName op = StreamifyOp then streamifyOpLegal (converter env) g op
      else if opName op = FuncOp then funcOpLegal (converter env) g op
      else if opName op \<in> set illegal_memref_ops then False
      else \<not> isLegal (wrap_target env) g op)"
  by (simp add: isLegal_def[of "target env"] getOpInfo_def target_ops target_dialects target_unknown)

lemma legal_not_illegal_memref:
  "isLegal (target env) g op \<Longrightarrow> opName op \<notin> set illegal_memref_ops"
  by (auto simp: target_isLegal illegal_memref_ops_def LoadOp_def call_like_ops_def
      StreamifyOp_def FuncOp_def split: if_splits)

section \<open>The registry the pass assembles\<close>

lemma provider_patterns_eq:
  "provider_patterns env =
     map (mkPattern (converter env))
       (cclRules env @ choleskyRules env @ convolutionRules env @ customCallRules env @
        gemmRules env @ infeedAndOutfeedRules env @ replicaAndPartitionRules env @
        triangularSolveRules env @ fftRules env)"
  by (simp add: provider_patterns_def Let_def populate_def
      populateCclConversionPattern_def populateCholeskyConversionPattern_def
      populateConvolutionConversionPattern_def populateCustomCallConversionPattern_def
      populateGemmConversionPattern_def populateInfeedAndOutfeedConversionPattern_def
      populateReplicaAndPartitionConversionPattern_def
      populateTriangularSolveConversionPattern_def populateFftConversionPattern_def)

lemma patterns_eq:
  "patterns env =
     provider_patterns env @ map (mkPattern (converter env)) (streamifyRules env (wrap_target env))"
  by (simp add: patterns_def wrap_target_def populateStreamifyConversionPatterns_def Let_def
      populate_def)

lemma example_converter:
  "convertType (converter example_env) t = (if t = MemRefType then Some BufferType else Some t)"
  by (simp add: converter_def CreateMemrefToTfrtGpuConverter_def example_env_def
      example_convert_def)

section \<open>The driver's final states\<close>

lemma illegalOps_empty: "illegalOps t g = [] \<longleftrightarrow> (\<forall>op \<in> set g. isLegal t g op)"
proof
  assume "illegalOps t g = []"
  then have "\<forall>i < length g. isLegal t g (g ! i)"
    by (simp add: illegalOps_def filter_empty_conv)
  then show "\<forall>op \<in> set g. isLegal t g op"
    by (auto simp: in_set_conv_nth)
next
  assume "\<forall>op \<in> set g. isLegal t g op"
  then show "illegalOps t g = []"
    by (simp add: illegalOps_def filter_empty_conv)
qed

lemma firstRewrite_None:
  "firstRewrite ps g is = None \<longleftrightarrow> (\<forall>i \<in> set is. selectPattern ps g i = None)"
  by (induction "is") (auto split: option.splits)

lemma driver_legal:
  "applyPartialConversion fuel g t ps = Some (StateLegal g') \<Longrightarrow> illegalOps t g' = []"
  by (induction fuel arbitrary: g) (auto split: if_splits option.splits)

lemma driver_stuck:
  "applyPartialConversion fuel g t ps = Some (StateStuck g') \<Longrightarrow>
   illegalOps t g' \<noteq> [] \<and> (\<forall>i \<in> set (illegalOps t g'). selectPattern ps g' i = None)"
  by (induction fuel arbitrary: g) (auto simp: firstRewrite_None split: if_splits option.splits)

lemma runOnOperation_unfold:
  "runOnOperation env fuel module =
     (case applyPartialConversion fuel module (target env) (patterns env) of
        None \<Rightarrow> None
      | Some (StateStuck g) \<Rightarrow> Some (Inl PassFailure)
      | Some (StateLegal g) \<Rightarrow> Some (Inr g))"
  by (simp add: runOnOperation_def driverCall_def)

section \<open>Claims\<close>

text \<open>
  Claim C1. If the pass reports success, every operation of the resulting module
  satisfies the legality oracle, and none of them is \<open>memref.reinterpret_cast\<close>,
  \<open>memref.view\<close>, \<open>memref.alloca\<close>, \<open>memref.alloc\<close> or \<open>memref.dealloc\<close>.
\<close>

theorem legality_postcondition:
  assumes "runOnOperation env fuel module = Some (Inr result)"
    and "op \<in> set result"
  shows "isLegal (target env) result op \<and> opName op \<notin> set illegal_memref_ops"
proof -
  from assms(1) have "applyPartialConversion fuel module (target env) (patterns env)
      = Some (StateLegal result)"
    by (auto simp: runOnOperation_unfold split: option.splits driver_state.splits)
  then have "illegalOps (target env) result = []"
    by (rule driver_legal)
  with assms(2) have "isLegal (target env) result op"
    by (simp add: illegalOps_empty)
  then show ?thesis
    by (simp add: legal_not_illegal_memref)
qed

text \<open>
  Claim C1, at the example module: three driver steps succeed, and the lowered fft of
  the result is legal.
\<close>

theorem legality_postcondition_witness:
  "runOnOperation example_env 3 example_module = Some (Inr example_converted) \<and>
   isLegal (target example_env) example_converted (example_converted ! 2) \<and>
   opName (example_converted ! 2) \<notin> set illegal_memref_ops"
proof -
  have run: "runOnOperation example_env 3 example_module = Some (Inr example_converted)"
    by code_simp
  have mem: "example_converted ! 2 \<in> set example_converted"
    by (simp add: example_converted_def)
  from legality_postcondition [OF run mem] run show ?thesis
    by simp
qed

text \<open>
  Claim C2. If the conversion ends with an operation that is still illegal and that no
  pattern applies to, the pass fails: its result is the pass failure, which carries no
  module.
\<close>

theorem stuck_fails_pass:
  assumes "applyPartialConversion fuel module (target env) (patterns env) = Some s"
    and "i \<in> set (illegalOps (target env) (finalGraph s))"
    and "selectPattern (patterns env) (finalGraph s) i = None"
  shows "runOnOperation env fuel module = Some (Inl PassFailure)"
proof (cases s)
  case (StateLegal g)
  with assms(1) have "illegalOps (target env) g = []"
    by (simp add: driver_legal)
  with assms(2) StateLegal show ?thesis
    by simp
next
  case (StateStuck g)
  with assms(1) show ?thesis
    by (simp add: runOnOperation_unfold)
qed

text \<open>
  Claim C2, at the module that allocates: the driver lowers the fft, is stuck on
  \<open>memref.alloc\<close>, and the pass fails although part of the module was converted.
\<close>

theorem stuck_fails_pass_witness:
  "applyPartialConversion 3 example_stuck_module (target example_env) (patterns example_env)
     = Some (StateStuck example_stuck_final) \<and>
   2 \<in> set (illegalOps (target example_env) example_stuck_final) \<and>
   selectPattern (patterns example_env) example_stuck_final 2 = None \<and>
   runOnOperation example_env 3 example_stuck_module = Some (Inl PassFailure)"
proof -
  have run: "applyPartialConversion 3 example_stuck_module (target example_env)
      (patterns example_env) = Some (StateStuck example_stuck_final)"
    by code_simp
  have bad: "2 \<in> set (illegalOps (target example_env) (finalGraph (StateStuck example_stuck_final)))"
    by code_simp
  have no: "selectPattern (patterns example_env) (finalGraph (StateStuck example_stuck_final)) 2 = None"
    by code_simp
  from stuck_fails_pass [OF run bad no] run bad no show ?thesis
    by simp
qed

text \<open>
  Claim C3. An operation whose kind the target does not classify explicitly is legal
  exactly when \<open>wrap_target\<close> does not claim it.
\<close>

theorem default_rule:
  assumes "opName op \<notin> set explicitly_classified"
  shows "isLegal (target env) g op = (\<not> isLegal (wrap_target env) g op)"
  using assms by (simp add: target_isLegal explicitly_classified_def)

text \<open>
  Claim C3, at \<open>lmhlo.fft\<close> (claimed, so illegal) and at the lowered fft (not claimed,
  so legal).
\<close>

theorem default_rule_witness:
  "opName (example_module ! 2) \<notin> set explicitly_classified \<and>
   isLegal (wrap_target example_env) example_module (example_module ! 2) \<and>
   \<not> isLegal (target example_env) example_module (example_module ! 2) \<and>
   opName (example_converted ! 2) \<notin> set explicitly_classified \<and>
   \<not> isLegal (wrap_target example_env) example_converted (example_converted ! 2) \<and>
   isLegal (target example_env) example_converted (example_converted ! 2)"
proof -
  have a: "opName (example_module ! 2) \<notin> set explicitly_classified"
    by code_simp
  have b: "isLegal (wrap_target example_env) example_module (example_module ! 2)"
    by code_simp
  have c: "opName (example_converted ! 2) \<notin> set explicitly_classified"
    by code_simp
  have d: "\<not> isLegal (wrap_target example_env) example_converted (example_converted ! 2)"
    by code_simp
  from default_rule [OF a, of example_env example_module]
    default_rule [OF c, of example_env example_converted] a b c d
  show ?thesis by simp
qed

text \<open>
  Claim C4, as the code has it. The pass never restructures the module before the
  driver runs: \<open>populateStreamifyConversionPatterns\<close> is given the registry, the
  converter and \<open>wrap_target\<close>, and appends the streamify rules to the registry after the
  rules of the nine providers. The driver is called once, on the module as the pass
  received it, with that registry; region wrapping is done by the driver's rewriting.
\<close>

theorem streamify_rules_run_in_driver:
  "callModule (driverCall env module) = module \<and>
   callPatterns (driverCall env module) =
     provider_patterns env @ map (mkPattern (converter env)) (streamifyRules env (wrap_target env)) \<and>
   runOnOperation env fuel module =
     (case applyPartialConversion fuel module (target env)
             (provider_patterns env @
              map (mkPattern (converter env)) (streamifyRules env (wrap_target env))) of
        None \<Rightarrow> None
      | Some (StateStuck g) \<Rightarrow> Some (Inl PassFailure)
      | Some (StateLegal g) \<Rightarrow> Some (Inr g))"
  by (simp add: driverCall_def runOnOperation_unfold patterns_eq)

text \<open>
  Claim C4, at the example module: the driver receives the module itself and a
  registry of two patterns, the fft rule and the streamify rule.
\<close>

theorem streamify_rules_run_in_driver_witness:
  "callModule (driverCall example_env example_module) = example_module \<and>
   length (callPatterns (driverCall example_env example_module)) = 2 \<and>
   runOnOperation example_env 3 example_module = Some (Inr example_converted)"
proof -
  have run: "applyPartialConversion 3 example_module (target example_env)
      (provider_patterns example_env @
       map (mkPattern (converter example_env))
         (streamifyRules example_env (wrap_target example_env))) = Some (StateLegal example_converted)"
    by code_simp
  have len: "length (provider_patterns example_env @
       map (mkPattern (converter example_env))
         (streamifyRules example_env (wrap_target example_env))) = 2"
    by (simp add: provider_patterns_eq example_env_def)
  from streamify_rules_run_in_driver [of example_env example_module 3] run len
  show ?thesis by simp
qed

text \<open>
  Claim C4 as stated fails at the example module: the module handed to the driver is
  not region-wrapped (its \<open>lmhlo.fft\<close> sits directly in the function body), and the
  first rewrite the driver performs is the wrapping.
\<close>

theorem wrapping_is_not_a_prepass:
  "\<not> regionWrapped example_env (callModule (driverCall example_env example_module)) \<and>
   firstRewrite (callPatterns (driverCall example_env example_module))
     (callModule (driverCall example_env example_module))
     (illegalOps (callTarget (driverCall example_env example_module))
        (callModule (driverCall example_env example_module))) = Some example_wrapped \<and>
   regionWrapped example_env example_wrapped"
  by code_simp

text \<open>
  Claim C5. \<open>wrap_target\<close> claims exactly the operations of the \<open>lmhlo_gpu\<close> dialect, the
  twelve listed \<open>lmhlo\<close> operations and the TFRT operations added by
  \<open>populateStreamifyConversionPatterns\<close>; an operation of the \<open>gpu\<close> dialect, and an
  \<open>lmhlo\<close> operation outside the twelve, is never claimed.
\<close>

theorem wrap_set:
  "isLegal (wrap_target env) g op =
     (fst (opName op) = LmhloGpuDialect \<or> opName op \<in> set wrapped_lmhlo_ops \<or>
      (fst (opName op) = TFRTDialect \<and> snd (opName op) \<in> set (streamifyTfrtOps env))) \<and>
   (fst (opName op) = GPUDialect \<longrightarrow> \<not> isLegal (wrap_target env) g op) \<and>
   (fst (opName op) = ''lmhlo'' \<and> opName op \<notin> set wrapped_lmhlo_ops
      \<longrightarrow> \<not> isLegal (wrap_target env) g op) \<and>
   length wrapped_lmhlo_ops = 12 \<and> distinct wrapped_lmhlo_ops"
proof -
  have "fst (opName op) = GPUDialect \<longrightarrow> \<not> isLegal (wrap_target env) g op"
    by (auto simp: wrap_target_isLegal GPUDialect_def LmhloGpuDialect_def TFRTDialect_def
        wrapped_lmhlo_ops_def)
  moreover have "fst (opName op) = ''lmhlo'' \<and> opName op \<notin> set wrapped_lmhlo_ops
      \<longrightarrow> \<not> isLegal (wrap_target env) g op"
    by (auto simp: wrap_target_isLegal LmhloGpuDialect_def TFRTDialect_def)
  moreover have "length wrapped_lmhlo_ops = 12 \<and> distinct wrapped_lmhlo_ops"
    by (simp add: wrapped_lmhlo_ops_def)
  ultimately show ?thesis
    by (simp only: wrap_target_isLegal simp_thms)
qed

text \<open>
  Claim C5, at five operations: \<open>lmhlo_gpu.gemm\<close>, \<open>lmhlo.fft\<close> and \<open>tfrt.call\<close> are
  claimed, \<open>lmhlo.copy\<close> and \<open>gpu.memcpy\<close> are not.
\<close>

theorem wrap_set_witness:
  "isLegal (wrap_target example_env) example_module (mkOp (''lmhlo_gpu'', ''gemm'') [] None) \<and>
   isLegal (wrap_target example_env) example_module (mkOp (''lmhlo'', ''fft'') [] None) \<and>
   isLegal (wrap_target example_env) example_module (mkOp (''tfrt'', ''call'') [] None) \<and>
   \<not> isLegal (wrap_target example_env) example_module (mkOp (''lmhlo'', ''copy'') [] None) \<and>
   fst (opName (mkOp (''gpu'', ''memcpy'') [] None)) = GPUDialect \<and>
   \<not> isLegal (wrap_target example_env) example_module (mkOp (''gpu'', ''memcpy'') [] None)"
  using wrap_set [of example_env example_module "mkOp (''lmhlo_gpu'', ''gemm'') [] None"]
    wrap_set [of example_env example_module "mkOp (''lmhlo'', ''fft'') [] None"]
    wrap_set [of example_env example_module "mkOp (''tfrt'', ''call'') [] None"]
    wrap_set [of example_env example_module "mkOp (''lmhlo'', ''copy'') [] None"]
    wrap_set [of example_env example_module "mkOp (''gpu'', ''memcpy'') [] None"]
  by (simp add: mkOp_def example_env_def wrapped_lmhlo_ops_def LmhloGpuDialect_def
      TFRTDialect_def GPUDialect_def)

text \<open>
  Claim C6. A \<open>func.func\<close> is legal exactly when its function type passes
  \<open>isSignatureLegal\<close> and its body region is legal for the converter; a
  \<open>tfrt_gpu.streamify\<close> is legal exactly when its body region is legal for the converter.
\<close>

theorem func_and_streamify_legality:
  assumes "opRegions op \<noteq> []"
  shows "(opName op = FuncOp \<longrightarrow>
            isLegal (target env) g op =
              (isSignatureLegal (converter env) (functionType op) \<and>
               isLegal_region (converter env) (opRegions op ! 0))) \<and>
         (opName op = StreamifyOp \<longrightarrow>
            isLegal (target env) g op = isLegal_region (converter env) (opRegions op ! 0))"
  using assms
  by (simp add: target_isLegal funcOpLegal_def streamifyOpLegal_def getRegion_def
      FuncOp_def StreamifyOp_def LoadOp_def call_like_ops_def)

text \<open>
  Claim C6, at a function and a streamify whose block arguments are converted (legal)
  and at ones that still take the source buffer type (illegal).
\<close>

theorem func_and_streamify_legality_witness:
  "opRegions (example_func [BufferType]) \<noteq> [] \<and>
   isLegal (target example_env) example_module (example_func [BufferType]) \<and>
   \<not> isLegal (target example_env) example_module (example_func [MemRefType]) \<and>
   isLegal (target example_env) example_converted (example_streamify [ChainType, StreamType]) \<and>
   \<not> isLegal (target example_env) example_converted (example_streamify [MemRefType])"
proof -
  have r: "opRegions (example_func args) \<noteq> []" "opRegions (example_streamify args) \<noteq> []" for args
    by (simp_all add: example_func_def example_streamify_def)
  from func_and_streamify_legality [OF r(1), of "[BufferType]" example_env example_module]
    func_and_streamify_legality [OF r(1), of "[MemRefType]" example_env example_module]
    func_and_streamify_legality [OF r(2), of "[ChainType, StreamType]" example_env example_converted]
    func_and_streamify_legality [OF r(2), of "[MemRefType]" example_env example_converted]
    r example_converter
  show ?thesis
    by (simp add: example_func_def example_streamify_def isSignatureLegal_def isLegal_region_def
        isLegal_types_def isLegal_type_def FuncOp_def StreamifyOp_def)
qed

text \<open>
  Claim C7. A \<open>memref.load\<close> with a parent operation is legal exactly when that parent
  is a \<open>tfrt_gpu.streamify\<close>; under any other parent it is illegal.
\<close>

theorem load_legality:
  assumes "opName op = LoadOp" and "getParentOp g op = Some p"
  shows "isLegal (target env) g op = (opName p = StreamifyOp)"
  using assms by (simp add: target_isLegal loadOpLegal_def)

text \<open>
  Claim C7, at a load in a streamify body (legal) and a load in a function body
  (illegal).
\<close>

theorem load_legality_witness:
  "opName (example_load_module ! 3) = LoadOp \<and>
   getParentOp example_load_module (example_load_module ! 3) = Some (example_load_module ! 2) \<and>
   isLegal (target example_env) example_load_module (example_load_module ! 3) \<and>
   opName (example_load_module ! 4) = LoadOp \<and>
   getParentOp example_load_module (example_load_module ! 4) = Some (example_load_module ! 1) \<and>
   \<not> isLegal (target example_env) example_load_module (example_load_module ! 4)"
proof -
  have n: "opName (example_load_module ! 3) = LoadOp" "opName (example_load_module ! 4) = LoadOp"
    by (simp_all add: example_load_module_def mkOp_def)
  have p: "getParentOp example_load_module (example_load_module ! 3) = Some (example_load_module ! 2)"
    "getParentOp example_load_module (example_load_module ! 4) = Some (example_load_module ! 1)"
    by (simp_all add: example_load_module_def mkOp_def getParentOp_def)
  have q: "opName (example_load_module ! 2) = StreamifyOp"
    "opName (example_load_module ! 1) \<noteq> StreamifyOp"
    by (simp_all add: example_load_module_def example_streamify_def example_func_def
        FuncOp_def StreamifyOp_def)
  from load_legality [OF n(1) p(1), of example_env] load_legality [OF n(2) p(2), of example_env]
    n p q
  show ?thesis by simp
qed

text \<open>
  Claim C8. The pass declares exactly four dependent dialects: \<open>gpu\<close>, \<open>tfrt\<close>,
  \<open>tfrt_gpu\<close> and \<open>xlir\<close>.
\<close>

theorem dependent_dialects:
  "getDependentDialects registry =
     registry \<union> {GPUDialect, TFRTDialect, TfrtGpuDialect, XlirDialect} \<and>
   getDependentDialects {} = {''gpu'', ''tfrt'', ''tfrt_gpu'', ''xlir''} \<and>
   card (getDependentDialects {}) = 4"
  by (auto simp: getDependentDialects_def GPUDialect_def TFRTDialect_def TfrtGpuDialect_def
      XlirDialect_def)

text \<open>
  Claim C8, on the empty registry: \<open>gpu\<close> is declared, the source dialect \<open>lmhlo\<close> is
  not.
\<close>

theorem dependent_dialects_witness:
  "''gpu'' \<in> getDependentDialects {} \<and> ''lmhlo'' \<notin> getDependentDialects {}"
  using dependent_dialects [of "{}"]
  by (simp add: GPUDialect_def TFRTDialect_def TfrtGpuDialect_def XlirDialect_def)

end
